theory Spec2Isabelle
  imports Main
begin

section \<open>Python values and built-ins used by pyPPC\<close>

text \<open>
  Text is modelled as \<open>string\<close> (a list of 8-bit characters); the character classes
  below are the ASCII part of Python's \<open>str.isalnum\<close>, \<open>str.isspace\<close> and
  \<open>str.lower\<close>.  A Python \<open>dict\<close> is an association list in insertion order with
  one entry per key.  Floating point numbers are kept abstract (type variable \<open>'f\<close>);
  the built-ins that produce or consume them are passed in a record \<open>pyops\<close>.
\<close>

datatype 'f pyval =
    VNone
  | VBool bool
  | VInt int
  | VFloat 'f
  | VStr string
  | VList "'f pyval list"
  | VDict "(string \<times> 'f pyval) list"

type_synonym 'f pydict = "(string \<times> 'f pyval) list"

type_synonym environ = "string \<Rightarrow> string option"

datatype pyexc =
    ValueError | OverflowError | BuiltinTypeError | AttributeError | OSError
  | RuntimeError | RecursionError

record 'f pyops =
  float_of_string :: "string \<Rightarrow> 'f option"
  float_of_int :: "int \<Rightarrow> pyexc + 'f"
  int_of_float :: "'f \<Rightarrow> pyexc + int"
  str_of_float :: "'f \<Rightarrow> string"
  str_of_compound :: "'f pyval \<Rightarrow> string"
  str_of_exc :: "pyexc \<Rightarrow> string"

definition is_digit :: "char \<Rightarrow> bool" where
  "is_digit c = (c \<in> set ''0123456789'')"

definition is_lower :: "char \<Rightarrow> bool" where
  "is_lower c = (c \<in> set ''abcdefghijklmnopqrstuvwxyz'')"

definition is_upper :: "char \<Rightarrow> bool" where
  "is_upper c = (c \<in> set ''ABCDEFGHIJKLMNOPQRSTUVWXYZ'')"

definition isalnum :: "char \<Rightarrow> bool" where
  "isalnum c = (is_digit c \<or> is_lower c \<or> is_upper c)"

definition isspace :: "char \<Rightarrow> bool" where
  "isspace c = (c \<in> set [CHR '' '', CHR 0x09, CHR 0x0A, CHR 0x0B, CHR 0x0C, CHR 0x0D,
                           CHR 0x1C, CHR 0x1D, CHR 0x1E, CHR 0x1F])"

definition lower_char :: "char \<Rightarrow> char" where
  "lower_char c = (if is_upper c then char_of (of_char c + (32::nat)) else c)"

definition lower :: "string \<Rightarrow> string" where
  "lower s = map lower_char s"

definition lstrip :: "string \<Rightarrow> string" where
  "lstrip s = dropWhile isspace s"

definition rstrip :: "string \<Rightarrow> string" where
  "rstrip s = rev (dropWhile isspace (rev s))"

definition strip :: "string \<Rightarrow> string" where
  "strip s = rstrip (lstrip s)"

text \<open>\<open>str(n)\<close> for a Python integer.\<close>

definition digit_char :: "nat \<Rightarrow> char" where
  "digit_char d = char_of (48 + d)"

function str_of_nat :: "nat \<Rightarrow> string" where
  "str_of_nat n = (if n < 10 then [digit_char n] else str_of_nat (n div 10) @ [digit_char (n mod 10)])"
  by pat_completeness auto
termination
  by (relation "measure id") auto

definition str_of_int :: "int \<Rightarrow> string" where
  "str_of_int i = (if i < 0 then CHR ''-'' # str_of_nat (nat (- i)) else str_of_nat (nat i))"

text \<open>
  \<open>int(s)\<close> for a string: surrounding whitespace is stripped, one sign is allowed,
  then decimal digits, with single underscores allowed between digits.
\<close>

definition digit_val :: "char \<Rightarrow> nat" where
  "digit_val c = of_char c - 48"

fun int_digits :: "nat \<Rightarrow> string \<Rightarrow> nat option" where
  "int_digits acc [] = Some acc"
| "int_digits acc [c] = (if is_digit c then Some (acc * 10 + digit_val c) else None)"
| "int_digits acc (c # d # cs) =
     (if is_digit c then
        (if d = CHR ''_'' then
           (case cs of [] \<Rightarrow> None
            | e # _ \<Rightarrow> if is_digit e then int_digits (acc * 10 + digit_val c) cs else None)
         else int_digits (acc * 10 + digit_val c) (d # cs))
      else None)"

definition nat_of_string :: "string \<Rightarrow> nat option" where
  "nat_of_string s = (if s = [] then None else int_digits 0 s)"

definition int_of_string :: "string \<Rightarrow> int option" where
  "int_of_string s =
     (case strip s of
        [] \<Rightarrow> None
      | c # cs \<Rightarrow>
          if c = CHR ''-'' then map_option (\<lambda>n. - int n) (nat_of_string cs)
          else if c = CHR ''+'' then map_option int (nat_of_string cs)
          else map_option int (nat_of_string (c # cs)))"

text \<open>\<open>str(v)\<close>: lists and dicts print through their \<open>repr\<close>, which is a built-in.\<close>

definition py_str :: "'f pyops \<Rightarrow> 'f pyval \<Rightarrow> string" where
  "py_str ops v =
     (case v of
        VNone \<Rightarrow> ''None''
      | VBool b \<Rightarrow> (if b then ''True'' else ''False'')
      | VInt i \<Rightarrow> str_of_int i
      | VFloat x \<Rightarrow> str_of_float ops x
      | VStr s \<Rightarrow> s
      | VList xs \<Rightarrow> str_of_compound ops v
      | VDict d \<Rightarrow> str_of_compound ops v)"

subsection \<open>Dictionaries\<close>

text \<open>\<open>d.get(k)\<close>, \<open>k in d\<close> and \<open>d[k] = v\<close> (an existing key keeps its position).\<close>

definition dict_get :: "(string \<times> 'v) list \<Rightarrow> string \<Rightarrow> 'v option" where
  "dict_get d k = map_of d k"

fun dict_set :: "(string \<times> 'v) list \<Rightarrow> string \<Rightarrow> 'v \<Rightarrow> (string \<times> 'v) list" where
  "dict_set [] k v = [(k, v)]"
| "dict_set ((k', v') # d) k v = (if k' = k then (k, v) # d else (k', v') # dict_set d k v)"



section \<open>Errors (exceptions.py)\<close>

text \<open>
  Each exception class of \<open>exceptions.py\<close> is a constructor carrying \<open>message\<close>,
  \<open>line\<close> and \<open>column\<close> as passed to \<open>PPCError.__init__\<close>.  \<open>PyError\<close> is a Python
  built-in exception that leaves the library uncaught.
\<close>

datatype error =
    LexerError string "nat option" "nat option"
  | ParseError string "nat option" "nat option"
  | TypeError string "nat option" "nat option"
  | EvaluationError string "nat option" "nat option"
  | IncludeError string "nat option" "nat option"
  | SecretError string "nat option" "nat option"
  | PyError pyexc

text \<open>\<open>PPCError._format_message\<close>, which is \<open>str(e)\<close>.\<close>

definition format_message :: "string \<Rightarrow> nat option \<Rightarrow> nat option \<Rightarrow> string" where
  "format_message message line column =
     (case line of
        Some l \<Rightarrow>
          message @ '' (line '' @ str_of_nat l @
            (case column of Some c \<Rightarrow> '', column '' @ str_of_nat c | None \<Rightarrow> '''') @ '')''
      | None \<Rightarrow> message)"

section \<open>Type system (types.py)\<close>

datatype PPCType = T_STR | T_INT | T_FLOAT | T_BOOL | T_LIST | T_ANY

text \<open>\<open>PPCType.from_string\<close>.\<close>

definition type_map :: "(string \<times> PPCType) list" where
  "type_map =
     [(''str'', T_STR), (''string'', T_STR), (''int'', T_INT), (''integer'', T_INT),
      (''float'', T_FLOAT), (''number'', T_FLOAT), (''bool'', T_BOOL), (''boolean'', T_BOOL),
      (''list'', T_LIST), (''array'', T_LIST), (''any'', T_ANY)]"

definition from_string :: "string \<Rightarrow> error + PPCType" where
  "from_string type_str =
     (let normalized = strip (lower type_str) in
      case map_of type_map normalized of
        None \<Rightarrow> Inl (TypeError (''Unknown type: '' @ type_str) None None)
      | Some t \<Rightarrow> Inr t)"

text \<open>
  \<open>int(value)\<close> and \<open>float(value)\<close> on a value that is not a \<open>bool\<close>.  The result is
  either a built-in exception or the converted value.
\<close>

definition py_int :: "'f pyops \<Rightarrow> 'f pyval \<Rightarrow> pyexc + 'f pyval" where
  "py_int ops v =
     (case v of
        VBool b \<Rightarrow> Inr (VInt (if b then 1 else 0))
      | VInt i \<Rightarrow> Inr (VInt i)
      | VFloat x \<Rightarrow> (case int_of_float ops x of Inl e \<Rightarrow> Inl e | Inr i \<Rightarrow> Inr (VInt i))
      | VStr s \<Rightarrow> (case int_of_string s of None \<Rightarrow> Inl ValueError | Some i \<Rightarrow> Inr (VInt i))
      | _ \<Rightarrow> Inl BuiltinTypeError)"

definition py_float :: "'f pyops \<Rightarrow> 'f pyval \<Rightarrow> pyexc + 'f pyval" where
  "py_float ops v =
     (case v of
        VBool b \<Rightarrow> (case float_of_int ops (if b then 1 else 0) of Inl e \<Rightarrow> Inl e | Inr x \<Rightarrow> Inr (VFloat x))
      | VInt i \<Rightarrow> (case float_of_int ops i of Inl e \<Rightarrow> Inl e | Inr x \<Rightarrow> Inr (VFloat x))
      | VFloat x \<Rightarrow> Inr (VFloat x)
      | VStr s \<Rightarrow> (case float_of_string ops s of None \<Rightarrow> Inl ValueError | Some x \<Rightarrow> Inr (VFloat x))
      | _ \<Rightarrow> Inl BuiltinTypeError)"

text \<open>
  \<open>validate_type\<close>.  In \<open>types.py\<close> the name \<open>TypeError\<close> is the library's own class,
  so \<open>except (ValueError, TypeError)\<close> catches the built-in \<open>ValueError\<close> only: a
  built-in \<open>TypeError\<close> or \<open>OverflowError\<close> raised by \<open>int\<close>/\<open>float\<close> escapes.
\<close>

definition is_bool :: "'f pyval \<Rightarrow> bool" where
  "is_bool v = (case v of VBool _ \<Rightarrow> True | _ \<Rightarrow> False)"

definition type_name :: "'f pyval \<Rightarrow> string" where
  "type_name v =
     (case v of VNone \<Rightarrow> ''NoneType'' | VBool _ \<Rightarrow> ''bool'' | VInt _ \<Rightarrow> ''int''
      | VFloat _ \<Rightarrow> ''float'' | VStr _ \<Rightarrow> ''str'' | VList _ \<Rightarrow> ''list'' | VDict _ \<Rightarrow> ''dict'')"

definition validate_type :: "'f pyops \<Rightarrow> 'f pyval \<Rightarrow> PPCType \<Rightarrow> nat option \<Rightarrow> error + 'f pyval" where
  "validate_type ops v expected_type line =
     (case expected_type of
        T_ANY \<Rightarrow> Inr v
      | T_STR \<Rightarrow> Inr (VStr (py_str ops v))
      | T_INT \<Rightarrow>
          (case (if is_bool v then Inl ValueError else py_int ops v) of
             Inr r \<Rightarrow> Inr r
           | Inl ValueError \<Rightarrow>
               Inl (TypeError (''Cannot convert '' @ [CHR 0x27] @ py_str ops v @ [CHR 0x27] @ '' to int'') line None)
           | Inl e \<Rightarrow> Inl (PyError e))
      | T_FLOAT \<Rightarrow>
          (case (if is_bool v then Inl ValueError else py_float ops v) of
             Inr r \<Rightarrow> Inr r
           | Inl ValueError \<Rightarrow>
               Inl (TypeError (''Cannot convert '' @ [CHR 0x27] @ py_str ops v @ [CHR 0x27] @ '' to float'') line None)
           | Inl e \<Rightarrow> Inl (PyError e))
      | T_BOOL \<Rightarrow>
          (case v of
             VBool b \<Rightarrow> Inr (VBool b)
           | VStr s \<Rightarrow>
               (let l = lower s in
                if l \<in> set [''true'', ''yes'', ''on'', ''1''] then Inr (VBool True)
                else if l \<in> set [''false'', ''no'', ''off'', ''0''] then Inr (VBool False)
                else Inl (TypeError (''Cannot convert '' @ [CHR 0x27] @ py_str ops v @ [CHR 0x27] @ '' to bool'') line None))
           | _ \<Rightarrow> Inl (TypeError (''Cannot convert '' @ [CHR 0x27] @ py_str ops v @ [CHR 0x27] @ '' to bool'') line None))
      | T_LIST \<Rightarrow>
          (case v of
             VList xs \<Rightarrow> Inr (VList xs)
           | _ \<Rightarrow> Inl (TypeError (''Expected list, got '' @ type_name v) line None)))"

section \<open>Secret providers (secrets.py)\<close>

text \<open>\<open>EnvSecretProvider.get\<close>: \<open>if value:\<close> is false for an unset and for an empty variable.\<close>

definition truthy_str :: "string option \<Rightarrow> bool" where
  "truthy_str v = (case v of None \<Rightarrow> False | Some s \<Rightarrow> s \<noteq> [])"

definition EnvSecretProvider_get :: "string \<Rightarrow> environ \<Rightarrow> string \<Rightarrow> string option" where
  "EnvSecretProvider_get prefix env key =
     (let v = env (prefix @ key) in
      if truthy_str v then v
      else (let w = env (''PEPECONFIG_SECRET_'' @ key) in
            if truthy_str w then w else None))"


section \<open>Deep merge (config.py, evaluator.py)\<close>

subsection \<open>Dict objects\<close>

text \<open>
  \<open>Config._deep_merge\<close> and \<open>Evaluator._deep_merge\<close> are the same code.  It changes
  \<open>base\<close> in place and stores the values of \<open>override\<close> by reference, so what it does
  depends on which dict objects its arguments share.  Dict objects therefore live in a
  store, at addresses.  A value held by a dict or a list is a \<open>cell\<close>: a scalar, a list
  of cells (the merge never changes a list), or \<open>Ref a\<close>, the reference to the dict
  object at address \<open>a\<close>.  In a store every reference is the address of a dict object;
  the branches for an address without an object are not reached from such stores.
\<close>

datatype 'f cell =
    CNone
  | CBool bool
  | CInt int
  | CFloat 'f
  | CStr string
  | CList "'f cell list"
  | Ref nat

type_synonym 'f dict_obj = "(string \<times> 'f cell) list"

type_synonym 'f store = "nat \<Rightarrow> 'f dict_obj option"

text \<open>
  \<open>_deep_merge(base, override)\<close> for the dict objects at the addresses \<open>base\<close> and
  \<open>override\<close>.  The first argument is the number of nested calls that the recursion
  limit of the interpreter still admits; beyond it Python raises \<open>RecursionError\<close>.
  \<open>deep_merge_loop\<close> is the \<open>for\<close> loop: the iterator of \<open>override.items()\<close> keeps the
  size \<open>used\<close> that the dict had when the loop began and the position \<open>pos\<close> of the
  next entry.  Each round reads the dict as it is then: it raises \<open>RuntimeError\<close>
  (dictionary changed size during iteration) when the size differs from \<open>used\<close>, ends
  the loop when no entry is left, and otherwise runs the body on the entry at \<open>pos\<close>.
  The result is the exception raised or the store after the call.
\<close>

function deep_merge :: "nat \<Rightarrow> 'f store \<Rightarrow> nat \<Rightarrow> nat \<Rightarrow> pyexc + 'f store"
  and deep_merge_loop :: "nat \<Rightarrow> 'f store \<Rightarrow> nat \<Rightarrow> nat \<Rightarrow> nat \<Rightarrow> nat \<Rightarrow> pyexc + 'f store"
where
  "deep_merge 0 h base override = Inl RecursionError"
| "deep_merge (Suc depth) h base override =
     (case h override of
        None \<Rightarrow> Inl AttributeError
      | Some items \<Rightarrow> deep_merge_loop depth h base override (length items) 0)"
| "deep_merge_loop depth h base override used pos =
     (case h override of
        None \<Rightarrow> Inl AttributeError
      | Some items \<Rightarrow>
          if length items \<noteq> used then Inl RuntimeError
          else if length items \<le> pos then Inr h
          else
            (case h base of
               None \<Rightarrow> Inl BuiltinTypeError
             | Some base_items \<Rightarrow>
                 (case items ! pos of
                    (key, value) \<Rightarrow>
                      (case (dict_get base_items key, value) of
                         (Some (Ref b), Ref ov) \<Rightarrow>
                           (case deep_merge depth h b ov of
                              Inl e \<Rightarrow> Inl e
                            | Inr h' \<Rightarrow> deep_merge_loop depth h' base override used (Suc pos))
                       | _ \<Rightarrow>
                           deep_merge_loop depth (h(base \<mapsto> dict_set base_items key value))
                             base override used (Suc pos)))))"
  by pat_completeness auto
termination
  by (relation "inv_image (less_than <*lex*> less_than <*lex*> less_than)
        (\<lambda>x. case x of
           Inl (depth, h, base, override) \<Rightarrow> (depth, 0, 0)
         | Inr (depth, h, base, override, used, pos) \<Rightarrow> (depth, 1, used - pos))")
     auto

text \<open>
  \<open>Config.merge(other)\<close>: \<open>self_data\<close> is the address of \<open>self._data\<close> and \<open>other_data\<close>
  that of \<open>other._data\<close>, or of \<open>other\<close> itself when \<open>other\<close> is a dict.  The method
  returns \<open>self\<close>; the model returns the store.
\<close>

definition merge :: "nat \<Rightarrow> 'f store \<Rightarrow> nat \<Rightarrow> nat \<Rightarrow> pyexc + 'f store" where
  "merge depth h self_data other_data = deep_merge depth h self_data other_data"

subsection \<open>Trees\<close>



text \<open>
  The merge as a function on trees: what \<open>_deep_merge\<close> leaves in \<open>base\<close> when \<open>base\<close>
  and \<open>override\<close> are trees that share no dict object.  The evaluator merges the tree of
  an included file, which nothing else refers to, into its own tree.
\<close>

function deep_merge_tree :: "'f pydict \<Rightarrow> 'f pydict \<Rightarrow> 'f pydict" where
  "deep_merge_tree base [] = base"
| "deep_merge_tree base ((key, v) # override) =
     deep_merge_tree
       (case (dict_get base key, v) of
          (Some (VDict b), VDict ov) \<Rightarrow> dict_set base key (VDict (deep_merge_tree b ov))
        | _ \<Rightarrow> dict_set base key v)
       override"
  by pat_completeness auto
termination
  by (relation "measure (\<lambda>(b, ov). size_list (size_prod (\<lambda>_. 0) size) ov)") auto

text \<open>Two stores for examples: a config whose sections share a dict, and a nested config.\<close>

definition shared_store :: "unit store" where
  "shared_store =
     [0 \<mapsto> [(''dev'', Ref 1), (''prod'', Ref 1)],
      1 \<mapsto> [(''timeout'', CInt 30)],
      2 \<mapsto> [(''prod'', Ref 3)],
      3 \<mapsto> [(''timeout'', CInt 60)]]"

definition nested_store :: "unit store" where
  "nested_store =
     [0 \<mapsto> [(''sub'', Ref 1)],
      1 \<mapsto> [(''sub'', Ref 2)],
      2 \<mapsto> [(''x'', CInt 1)]]"






section \<open>Lexer (lexer.py)\<close>

datatype TokenType =
    SECTION | SECTION_WHEN | INCLUDE
  | KEY | TYPE_HINT | EQUALS | VALUE
  | STRING | NUMBER | BOOLEAN | NULL | ENV_VAR | SECRET | DEFAULT_OP
  | LBRACKET | RBRACKET | COMMA
  | COMMENT | NEWLINE | INDENT | EOF

datatype Token = Token (tok_type: TokenType) (tok_value: string) (tok_line: nat) (tok_column: nat)

text \<open>
  The state of a \<open>Lexer\<close>.  The lexer only ever reads \<open>text\<close> from \<open>pos\<close> onwards and
  \<open>pos\<close> never decreases, so the state keeps \<open>lx_rest = text[pos:]\<close> together with
  \<open>line\<close> and \<open>column\<close>.  The token list is passed separately.
\<close>

record lexer =
  lx_rest :: string
  lx_line :: nat
  lx_column :: nat

definition Lexer :: "string \<Rightarrow> lexer" where
  "Lexer text = \<lparr>lx_rest = text, lx_line = 1, lx_column = 1\<rparr>"

definition current_char :: "lexer \<Rightarrow> char option" where
  "current_char st = (case lx_rest st of [] \<Rightarrow> None | c # _ \<Rightarrow> Some c)"

definition peek :: "lexer \<Rightarrow> char option" where
  "peek st = (case lx_rest st of c # d # _ \<Rightarrow> Some d | _ \<Rightarrow> None)"

text \<open>One round of the loop of \<open>_advance\<close>, and \<open>_advance(count)\<close>.\<close>

definition advance1 :: "lexer \<Rightarrow> lexer" where
  "advance1 st =
     (case lx_rest st of
        [] \<Rightarrow> st
      | c # cs \<Rightarrow>
          if c = CHR 0x0A then \<lparr>lx_rest = cs, lx_line = lx_line st + 1, lx_column = 1\<rparr>
          else \<lparr>lx_rest = cs, lx_line = lx_line st, lx_column = lx_column st + 1\<rparr>)"

primrec advance :: "nat \<Rightarrow> lexer \<Rightarrow> lexer" where
  "advance 0 st = st"
| "advance (Suc n) st = advance n (advance1 st)"

text \<open>
  The loops of the form \<open>while current_char() satisfies p: result += advance()\<close>: the
  longest prefix of the remaining text whose characters satisfy \<open>p\<close> is consumed.
\<close>

definition read_while :: "(char \<Rightarrow> bool) \<Rightarrow> lexer \<Rightarrow> string \<times> lexer" where
  "read_while p st = (let s = takeWhile p (lx_rest st) in (s, advance (length s) st))"

definition skip_whitespace_on_line :: "lexer \<Rightarrow> nat \<times> lexer" where
  "skip_whitespace_on_line st =
     (let (s, st') = read_while (\<lambda>c. c = CHR '' '' \<or> c = CHR 0x09) st in (length s, st'))"

definition read_until :: "string \<Rightarrow> lexer \<Rightarrow> string \<times> lexer" where
  "read_until end_chars st = read_while (\<lambda>c. c \<notin> set end_chars) st"

text \<open>
  \<open>_read_string\<close>: the loop after the opening quote, returning the string read and the
  number of characters consumed.
\<close>

fun read_string_chars :: "char \<Rightarrow> string \<Rightarrow> string \<times> nat" where
  "read_string_chars q [] = ([], 0)"
| "read_string_chars q (c # cs) =
     (if c = CHR 0x5C then
        (case cs of
           [] \<Rightarrow> ([], 1)
         | d # ds \<Rightarrow>
             (let (r, n) = read_string_chars q ds in
              ((if d = CHR ''n'' then CHR 0x0A
                else if d = CHR ''t'' then CHR 0x09
                else if d = CHR 0x5C then CHR 0x5C
                else if d = q then q
                else d) # r, n + 2)))
      else if c = q then ([], 1)
      else (let (r, n) = read_string_chars q cs in (c # r, n + 1)))"

definition read_string :: "char \<Rightarrow> lexer \<Rightarrow> string \<times> lexer" where
  "read_string quote_char st =
     (let st1 = advance1 st;
          (r, n) = read_string_chars quote_char (lx_rest st1)
      in (r, advance n st1))"

text \<open>The classification of a bare value in \<open>_read_value_token\<close>.\<close>

definition classify_bare :: "'f pyops \<Rightarrow> string \<Rightarrow> nat \<Rightarrow> nat \<Rightarrow> Token" where
  "classify_bare ops v start_line start_col =
     (if lower v \<in> set [''true'', ''yes'', ''on''] then Token BOOLEAN ''true'' start_line start_col
      else if lower v \<in> set [''false'', ''no'', ''off''] then Token BOOLEAN ''false'' start_line start_col
      else if lower v \<in> set [''null'', ''none'', ''nil''] then Token NULL ''null'' start_line start_col
      else if (if CHR ''.'' \<in> set v then float_of_string ops v \<noteq> None else int_of_string v \<noteq> None)
        then Token NUMBER v start_line start_col
      else Token STRING v start_line start_col)"

definition is_name_char :: "char \<Rightarrow> bool" where
  "is_name_char c = (isalnum c \<or> c = CHR ''_'')"

definition is_bare_end :: "char \<Rightarrow> bool" where
  "is_bare_end c = (c \<in> set [CHR '' '', CHR 0x09, CHR 0x0A, CHR ''#'', CHR '','', CHR '']'', CHR ''?''])"

text \<open>
  \<open>_read_value_token\<close> and \<open>_read_array\<close> call each other, and the loop of
  \<open>_read_array\<close> need not end.  The first argument is fuel: \<open>None\<close> means that the
  fuel ran out, \<open>Some (Inl e)\<close> that \<open>e\<close> was raised, \<open>Some (Inr (tokens, st))\<close> that the
  call returned \<open>tokens\<close> in state \<open>st\<close>.  \<open>read_array_loop\<close> is the \<open>while\<close> loop of
  \<open>_read_array\<close> together with the code after it.
\<close>

fun read_value_token :: "nat \<Rightarrow> 'f pyops \<Rightarrow> lexer \<Rightarrow> (error + Token list \<times> lexer) option"
  and read_array_loop :: "nat \<Rightarrow> 'f pyops \<Rightarrow> Token list \<Rightarrow> lexer \<Rightarrow> (error + Token list \<times> lexer) option"
  and read_default :: "nat \<Rightarrow> 'f pyops \<Rightarrow> Token list \<Rightarrow> lexer \<Rightarrow> (error + Token list \<times> lexer) option"
where
  "read_value_token 0 ops st = None"
| "read_value_token (Suc n) ops st =
     (let start_line = lx_line st; start_col = lx_column st; char = current_char st in
      if char = Some (CHR 0x22) \<or> char = Some (CHR 0x27) then
        (let (v, st1) = read_string (the char) st in
         read_default n ops [Token STRING v start_line start_col] st1)
      else if char = Some (CHR ''['') then
        (case read_array_loop n ops [Token LBRACKET ''['' start_line start_col] (advance1 st) of
           None \<Rightarrow> None
         | Some (Inl e) \<Rightarrow> Some (Inl e)
         | Some (Inr (toks, st1)) \<Rightarrow> read_default n ops toks st1)
      else if char = Some (CHR ''$'') then
        (let st1 = advance1 st in
         if current_char st1 = Some (CHR ''e'') \<and> take 3 (lx_rest st1) = ''env'' then
           (let (name, st2) = read_while is_name_char (advance 4 st1) in
            read_default n ops [Token ENV_VAR name start_line start_col] st2)
         else if current_char st1 = Some (CHR ''s'') \<and> take 6 (lx_rest st1) = ''secret'' then
           (let (name, st2) = read_while is_name_char (advance 7 st1) in
            read_default n ops [Token SECRET name start_line start_col] st2)
         else Some (Inl (LexerError ''Invalid variable reference'' (Some start_line) (Some start_col))))
      else
        (let (v, st1) = read_while (\<lambda>c. \<not> is_bare_end c) st in
         if v = [] then Some (Inr ([], st1))
         else read_default n ops [classify_bare ops v start_line start_col] st1))"
| "read_default n ops toks st =
     (let (k, st1) = skip_whitespace_on_line st in
      if current_char st1 = Some (CHR ''?'') \<and> peek st1 = Some (CHR ''?'') then
        (let (k2, st2) = skip_whitespace_on_line (advance 2 st1) in
         case read_value_token n ops st2 of
           None \<Rightarrow> None
         | Some (Inl e) \<Rightarrow> Some (Inl e)
         | Some (Inr (default_tokens, st3)) \<Rightarrow>
             Some (Inr (toks @ [Token DEFAULT_OP ''??'' (lx_line st1) (lx_column st1)] @ default_tokens, st3)))
      else Some (Inr (toks, st1)))"
| "read_array_loop 0 ops toks st = None"
| "read_array_loop (Suc n) ops toks st =
     (if current_char st \<noteq> None \<and> current_char st \<noteq> Some (CHR '']'') then
        (let (k, st1) = skip_whitespace_on_line st;
             (nl, st2) = read_while (\<lambda>c. c = CHR 0x0A \<or> c = CHR '' '' \<or> c = CHR 0x09) st1;
             st3 = (if current_char st1 = Some (CHR 0x0A) then st2 else st1)
         in
         if current_char st3 = Some (CHR '']'') then
           Some (Inr (toks @ [Token RBRACKET '']'' (lx_line st3) (lx_column st3)], advance1 st3))
         else if current_char st3 = Some (CHR ''#'') then
           read_array_loop n ops toks (snd (read_until [CHR 0x0A] st3))
         else
           (case read_value_token n ops st3 of
              None \<Rightarrow> None
            | Some (Inl e) \<Rightarrow> Some (Inl e)
            | Some (Inr (val_tokens, st4)) \<Rightarrow>
                (let (k5, st5) = skip_whitespace_on_line st4 in
                 if current_char st5 = Some (CHR '','') then
                   read_array_loop n ops
                     (toks @ val_tokens @ [Token COMMA '','' (lx_line st5) (lx_column st5)])
                     (advance1 st5)
                 else read_array_loop n ops (toks @ val_tokens) st5)))
      else if current_char st = Some (CHR '']'') then
        Some (Inr (toks @ [Token RBRACKET '']'' (lx_line st) (lx_column st)], advance1 st))
      else Some (Inr (toks, st)))"

definition read_array :: "nat \<Rightarrow> 'f pyops \<Rightarrow> lexer \<Rightarrow> (error + Token list \<times> lexer) option" where
  "read_array n ops st =
     read_array_loop n ops [Token LBRACKET ''['' (lx_line st) (lx_column st)] (advance1 st)"

text \<open>
  One iteration of the \<open>while\<close> loop of \<open>tokenize\<close>, up to the point where it calls
  \<open>_read_value_token\<close>, continues, raises or leaves the loop:
  \<open>StepEOF t\<close> is the end of the text (the \<open>EOF\<close> token \<open>t\<close> is appended after the
  loop), \<open>StepError e\<close> raises \<open>e\<close>, \<open>StepTokens ts st\<close> appends \<open>ts\<close> and continues in
  state \<open>st\<close>, and \<open>StepValue ts st\<close> appends \<open>ts\<close> and reads a value in state \<open>st\<close>.
\<close>

datatype step = StepEOF Token | StepError error | StepTokens "Token list" lexer | StepValue "Token list" lexer

definition step_newline :: "lexer \<Rightarrow> step" where
  "step_newline st =
     (let (indent, st1) = skip_whitespace_on_line (advance1 st) in
      StepTokens
        (Token NEWLINE [CHR 0x5C, CHR ''n''] (lx_line st) (lx_column st) #
           (if indent > 0 \<and> current_char st1 \<notin> {None, Some (CHR 0x0A), Some (CHR ''#'')}
            then [Token INDENT (replicate indent (CHR '' '')) (lx_line st1) 1] else []))
        st1)"

definition step_comment :: "lexer \<Rightarrow> step" where
  "step_comment st =
     (let (comment, st1) = read_until [CHR 0x0A] st in
      StepTokens [Token COMMENT (strip comment) (lx_line st) (lx_column st)] st1)"

definition step_section :: "lexer \<Rightarrow> step" where
  "step_section st =
     (let st1 = snd (skip_whitespace_on_line (advance 2 st)) in
      if current_char st1 = Some (CHR ''@'') \<and> take 5 (lx_rest st1) = ''@when'' then
        (let (condition, st2) =
               read_until [CHR 0x0A] (snd (skip_whitespace_on_line (advance 5 st1))) in
         StepTokens [Token SECTION_WHEN (strip condition) (lx_line st) (lx_column st)] st2)
      else
        (let (name, st2) = read_until [CHR 0x0A, CHR ''#''] st1 in
         StepTokens [Token SECTION (strip name) (lx_line st) (lx_column st)] st2))"

definition step_include :: "lexer \<Rightarrow> step" where
  "step_include st =
     (let st1 = snd (skip_whitespace_on_line (advance 8 st));
          (path, st2) =
            (if current_char st1 = Some (CHR 0x22) \<or> current_char st1 = Some (CHR 0x27)
             then read_string (the (current_char st1)) st1
             else (let (p, st') = read_until [CHR 0x0A, CHR ''#''] st1 in (strip p, st')))
      in StepTokens [Token INCLUDE path (lx_line st) (lx_column st)] st2)"

definition step_key :: "lexer \<Rightarrow> step" where
  "step_key st =
     (let (key, st1) = read_while (\<lambda>c. isalnum c \<or> c = CHR ''_'' \<or> c = CHR ''-'') st;
          st2 = snd (skip_whitespace_on_line st1);
          (hint, st3) =
            (if current_char st2 = Some (CHR '':'') \<and> peek st2 = Some (CHR '':'') then
               (let (type_name, st') =
                      read_while isalnum (snd (skip_whitespace_on_line (advance 2 st2))) in
                ([Token TYPE_HINT type_name (lx_line st') (lx_column st')],
                 snd (skip_whitespace_on_line st')))
             else ([], st2));
          toks1 = Token KEY key (lx_line st) (lx_column st) # hint
      in
      if current_char st3 = Some (CHR ''='') then
        StepValue (toks1 @ [Token EQUALS ''='' (lx_line st3) (lx_column st3)])
          (snd (skip_whitespace_on_line (advance1 st3)))
      else StepTokens toks1 st3)"

definition tokenize_step :: "lexer \<Rightarrow> step" where
  "tokenize_step st =
     (case current_char st of
        None \<Rightarrow> StepEOF (Token EOF [] (lx_line st) (lx_column st))
      | Some char \<Rightarrow>
          if char = CHR 0x0A then step_newline st
          else if char = CHR '' '' \<or> char = CHR 0x09 then StepTokens [] (snd (skip_whitespace_on_line st))
          else if char = CHR ''#'' then step_comment st
          else if char = CHR ''>'' \<and> peek st = Some (CHR ''>'') then step_section st
          else if char = CHR ''@'' \<and> take 8 (lx_rest st) = ''@include'' then step_include st
          else if isalnum char \<or> char = CHR ''_'' then step_key st
          else StepError (LexerError (''Unexpected character: '' @ [char])
                            (Some (lx_line st)) (Some (lx_column st))))"

text \<open>The \<open>while\<close> loop of \<open>tokenize\<close>, one iteration per unit of fuel.\<close>

fun tokenize_loop :: "nat \<Rightarrow> 'f pyops \<Rightarrow> Token list \<Rightarrow> lexer \<Rightarrow> (error + Token list) option" where
  "tokenize_loop 0 ops toks st = None"
| "tokenize_loop (Suc n) ops toks st =
     (case tokenize_step st of
        StepEOF t \<Rightarrow> Some (Inr (toks @ [t]))
      | StepError e \<Rightarrow> Some (Inl e)
      | StepTokens new st1 \<Rightarrow> tokenize_loop n ops (toks @ new) st1
      | StepValue new st1 \<Rightarrow>
          (case read_value_token n ops st1 of
             None \<Rightarrow> None
           | Some (Inl e) \<Rightarrow> Some (Inl e)
           | Some (Inr (value_tokens, st2)) \<Rightarrow> tokenize_loop n ops (toks @ new @ value_tokens) st2))"

text \<open>\<open>tokenize(text)\<close>, with the fuel for its loops.\<close>

definition tokenize :: "nat \<Rightarrow> 'f pyops \<Rightarrow> string \<Rightarrow> (error + Token list) option" where
  "tokenize n ops text = tokenize_loop n ops [] (Lexer text)"

section \<open>Parser (parser.py)\<close>

text \<open>
  The dataclasses of the AST.  Inside an array literal a reference is the placeholder
  dict \<open>{"$env": name}\<close> or \<open>{"$secret": name}\<close>.
\<close>

datatype 'f ValueNode =
  ValueNode (vn_value: "'f pyval") (vn_type_hint: "string option") (vn_env_var: "string option")
            (vn_secret: "string option") (vn_default: "'f ValueNode option") (vn_line: nat)

datatype 'f AssignmentNode =
  AssignmentNode (an_key: string) (an_value: "'f ValueNode") (an_line: nat)

datatype 'f SectionNode =
  SectionNode (sn_name: string) (sn_assignments: "'f AssignmentNode list") (sn_line: nat)

datatype 'f ConditionalNode =
  ConditionalNode (cn_condition: string) (cn_sections: "'f SectionNode list") (cn_line: nat)

datatype IncludeNode = IncludeNode (in_path: string) (in_line: nat)

datatype 'f AST =
  AST (ast_sections: "'f SectionNode list") (ast_conditionals: "'f ConditionalNode list")
      (ast_includes: "IncludeNode list")

definition tt_name :: "TokenType \<Rightarrow> string" where
  "tt_name t =
     (case t of
        SECTION \<Rightarrow> ''SECTION'' | SECTION_WHEN \<Rightarrow> ''SECTION_WHEN'' | INCLUDE \<Rightarrow> ''INCLUDE''
      | KEY \<Rightarrow> ''KEY'' | TYPE_HINT \<Rightarrow> ''TYPE_HINT'' | EQUALS \<Rightarrow> ''EQUALS'' | VALUE \<Rightarrow> ''VALUE''
      | STRING \<Rightarrow> ''STRING'' | NUMBER \<Rightarrow> ''NUMBER'' | BOOLEAN \<Rightarrow> ''BOOLEAN'' | NULL \<Rightarrow> ''NULL''
      | ENV_VAR \<Rightarrow> ''ENV_VAR'' | SECRET \<Rightarrow> ''SECRET'' | DEFAULT_OP \<Rightarrow> ''DEFAULT_OP''
      | LBRACKET \<Rightarrow> ''LBRACKET'' | RBRACKET \<Rightarrow> ''RBRACKET'' | COMMA \<Rightarrow> ''COMMA''
      | COMMENT \<Rightarrow> ''COMMENT'' | NEWLINE \<Rightarrow> ''NEWLINE'' | INDENT \<Rightarrow> ''INDENT'' | EOF \<Rightarrow> ''EOF'')"

text \<open>
  A \<open>Parser\<close> reads \<open>tokens\<close> from \<open>pos\<close> onwards only, so its position is the list of
  the remaining tokens.  \<open>Parser.__init__\<close> drops comments and newlines.
\<close>

definition Parser :: "Token list \<Rightarrow> Token list" where
  "Parser tokens = filter (\<lambda>t. tok_type t \<noteq> COMMENT \<and> tok_type t \<noteq> NEWLINE) tokens"

definition skip_indent :: "Token list \<Rightarrow> Token list" where
  "skip_indent ts = dropWhile (\<lambda>t. tok_type t = INDENT) ts"

definition expect :: "TokenType \<Rightarrow> Token list \<Rightarrow> error + Token \<times> Token list" where
  "expect token_type ts =
     (case ts of
        [] \<Rightarrow> Inl (ParseError (''Expected '' @ tt_name token_type @ '', got EOF'') (Some 0) None)
      | t # rest \<Rightarrow>
          if tok_type t \<noteq> token_type
          then Inl (ParseError (''Expected '' @ tt_name token_type @ '', got '' @ tt_name (tok_type t))
                      (Some (tok_line t)) None)
          else Inr (t, rest))"

text \<open>The \<open>if\<close>/\<open>elif\<close> chain of \<open>_parse_value\<close> for a token that is not a bracket.\<close>

definition scalar_node :: "'f pyops \<Rightarrow> Token \<Rightarrow> error + 'f ValueNode" where
  "scalar_node ops token =
     (let l = tok_line token; v = tok_value token in
      case tok_type token of
        ENV_VAR \<Rightarrow> Inr (ValueNode VNone None (Some v) None None l)
      | SECRET \<Rightarrow> Inr (ValueNode VNone None None (Some v) None l)
      | STRING \<Rightarrow> Inr (ValueNode (VStr v) None None None None l)
      | NUMBER \<Rightarrow>
          (if CHR ''.'' \<in> set v then
             (case float_of_string ops v of
                None \<Rightarrow> Inl (PyError ValueError)
              | Some x \<Rightarrow> Inr (ValueNode (VFloat x) None None None None l))
           else
             (case int_of_string v of
                None \<Rightarrow> Inl (PyError ValueError)
              | Some i \<Rightarrow> Inr (ValueNode (VInt i) None None None None l)))
      | BOOLEAN \<Rightarrow> Inr (ValueNode (VBool (v = ''true'')) None None None None l)
      | NULL \<Rightarrow> Inr (ValueNode VNone None None None None l)
      | _ \<Rightarrow> Inl (ParseError (''Unexpected token: '' @ tt_name (tok_type token)) (Some l) None))"

text \<open>The item that \<open>_parse_array\<close> appends for a parsed value node.\<close>

definition array_item :: "'f ValueNode \<Rightarrow> 'f pyval" where
  "array_item value_node =
     (if truthy_str (vn_env_var value_node)
        then VDict [(''$env'', VStr (the (vn_env_var value_node)))]
      else if truthy_str (vn_secret value_node)
        then VDict [(''$secret'', VStr (the (vn_secret value_node)))]
      else vn_value value_node)"

text \<open>
  \<open>_parse_value\<close> and \<open>_parse_array\<close> call each other; the first argument is fuel, as
  in the lexer.  \<open>parse_array_loop\<close> is the \<open>while\<close> loop of \<open>_parse_array\<close> together
  with the final \<open>_expect(RBRACKET)\<close>.
\<close>

fun parse_value :: "nat \<Rightarrow> 'f pyops \<Rightarrow> Token list \<Rightarrow> (error + 'f ValueNode \<times> Token list) option"
  and parse_array_loop ::
    "nat \<Rightarrow> 'f pyops \<Rightarrow> 'f pyval list \<Rightarrow> Token list \<Rightarrow> (error + 'f pyval list \<times> Token list) option"
where
  "parse_value 0 ops ts = None"
| "parse_value (Suc n) ops ts =
     (case skip_indent ts of
        [] \<Rightarrow> Some (Inl (ParseError ''Expected value, got EOF'' None None))
      | token # rest \<Rightarrow>
          if tok_type token = LBRACKET then
            (case parse_array_loop n ops [] rest of
               None \<Rightarrow> None
             | Some (Inl e) \<Rightarrow> Some (Inl e)
             | Some (Inr (items, ts1)) \<Rightarrow>
                 Some (Inr (ValueNode (VList items) None None None None (tok_line token), ts1)))
          else
            (case scalar_node ops token of
               Inl e \<Rightarrow> Some (Inl e)
             | Inr node \<Rightarrow>
                 (case rest of
                    [] \<Rightarrow> Some (Inr (node, rest))
                  | t # rest' \<Rightarrow>
                      if tok_type t = DEFAULT_OP then
                        (case parse_value n ops rest' of
                           None \<Rightarrow> None
                         | Some (Inl e) \<Rightarrow> Some (Inl e)
                         | Some (Inr (d, ts1)) \<Rightarrow>
                             Some (Inr (ValueNode (vn_value node) (vn_type_hint node) (vn_env_var node)
                                          (vn_secret node) (Some d) (vn_line node), ts1)))
                      else Some (Inr (node, rest)))))"
| "parse_array_loop 0 ops items ts = None"
| "parse_array_loop (Suc n) ops items ts =
     (case ts of
        [] \<Rightarrow> Some (Inl (ParseError (''Expected RBRACKET, got EOF'') (Some 0) None))
      | t # ts' \<Rightarrow>
          if tok_type t = RBRACKET then Some (Inr (items, ts'))
          else
            (case skip_indent ts of
               [] \<Rightarrow> Some (Inl (PyError AttributeError))
             | t1 # ts1 \<Rightarrow>
                 if tok_type t1 = RBRACKET then Some (Inr (items, ts1))
                 else
                   (case parse_value n ops (t1 # ts1) of
                      None \<Rightarrow> None
                    | Some (Inl e) \<Rightarrow> Some (Inl e)
                    | Some (Inr (value_node, ts2)) \<Rightarrow>
                        (let ts3 = skip_indent ts2;
                             ts4 = (case ts3 of
                                      [] \<Rightarrow> ts3
                                    | c # r \<Rightarrow> if tok_type c = COMMA then r else ts3)
                         in parse_array_loop n ops (items @ [array_item value_node]) ts4))))"

definition parse_array :: "nat \<Rightarrow> 'f pyops \<Rightarrow> Token list \<Rightarrow> (error + 'f pyval list \<times> Token list) option" where
  "parse_array n ops ts =
     (case expect LBRACKET ts of
        Inl e \<Rightarrow> Some (Inl e)
      | Inr (t, rest) \<Rightarrow> parse_array_loop n ops [] rest)"

definition parse_assignment ::
  "nat \<Rightarrow> 'f pyops \<Rightarrow> Token list \<Rightarrow> (error + 'f AssignmentNode \<times> Token list) option" where
  "parse_assignment n ops ts =
     (case expect KEY (skip_indent ts) of
        Inl e \<Rightarrow> Some (Inl e)
      | Inr (key_token, ts1) \<Rightarrow>
          (let (type_hint, ts2) =
                 (case ts1 of
                    [] \<Rightarrow> (None, ts1)
                  | t # r \<Rightarrow> if tok_type t = TYPE_HINT then (Some (tok_value t), r) else (None, ts1))
           in
           case expect EQUALS ts2 of
             Inl e \<Rightarrow> Some (Inl e)
           | Inr (eq, ts3) \<Rightarrow>
               (case parse_value n ops ts3 of
                  None \<Rightarrow> None
                | Some (Inl e) \<Rightarrow> Some (Inl e)
                | Some (Inr (value_node, ts4)) \<Rightarrow>
                    Some (Inr (AssignmentNode (tok_value key_token)
                                 (ValueNode (vn_value value_node) type_hint (vn_env_var value_node)
                                    (vn_secret value_node) (vn_default value_node) (vn_line value_node))
                                 (tok_line key_token), ts4)))))"

text \<open>
  The two nested loops of \<open>parse\<close> under a \<open>SECTION_WHEN\<close> token: the assignments of one
  nested section, and the nested sections.
\<close>

fun parse_when_assignments ::
  "nat \<Rightarrow> 'f pyops \<Rightarrow> 'f AssignmentNode list \<Rightarrow> Token list
     \<Rightarrow> (error + 'f AssignmentNode list \<times> Token list) option" where
  "parse_when_assignments 0 ops acc ts = None"
| "parse_when_assignments (Suc n) ops acc ts =
     (case ts of
        [] \<Rightarrow> Some (Inr (acc, ts))
      | t # r \<Rightarrow>
          if tok_type t = KEY then
            (case parse_assignment n ops ts of
               None \<Rightarrow> None
             | Some (Inl e) \<Rightarrow> Some (Inl e)
             | Some (Inr (a, ts1)) \<Rightarrow> parse_when_assignments n ops (acc @ [a]) (skip_indent ts1))
          else Some (Inr (acc, ts)))"

fun parse_when_sections ::
  "nat \<Rightarrow> 'f pyops \<Rightarrow> 'f SectionNode list \<Rightarrow> Token list
     \<Rightarrow> (error + 'f SectionNode list \<times> Token list) option" where
  "parse_when_sections 0 ops acc ts = None"
| "parse_when_sections (Suc n) ops acc ts =
     (case ts of
        [] \<Rightarrow> Some (Inr (acc, ts))
      | t # r \<Rightarrow>
          if tok_type t = SECTION then
            (case parse_when_assignments n ops [] (skip_indent r) of
               None \<Rightarrow> None
             | Some (Inl e) \<Rightarrow> Some (Inl e)
             | Some (Inr (as, ts1)) \<Rightarrow>
                 parse_when_sections n ops (acc @ [SectionNode (tok_value t) as (tok_line t)]) ts1)
          else Some (Inr (acc, ts)))"

text \<open>
  \<open>self.current_section\<close> is \<open>None\<close>, or the section appended last to \<open>ast.sections\<close>,
  or the section appended last to the conditional appended last: the parser appends to
  the tail of these lists only, except for the root section, which it inserts at the
  head while \<open>current_section\<close> is \<open>None\<close>.
\<close>

datatype current_section = CurNone | CurSection | CurWhen

definition map_last :: "('a \<Rightarrow> 'a) \<Rightarrow> 'a list \<Rightarrow> 'a list" where
  "map_last f xs = (case xs of [] \<Rightarrow> [] | _ \<Rightarrow> butlast xs @ [f (last xs)])"

definition append_assignment :: "'f AssignmentNode \<Rightarrow> 'f SectionNode \<Rightarrow> 'f SectionNode" where
  "append_assignment a s = SectionNode (sn_name s) (sn_assignments s @ [a]) (sn_line s)"

text \<open>The branch of \<open>parse\<close> for a \<open>KEY\<close> token, after the assignment is parsed.\<close>

definition add_assignment ::
  "current_section \<Rightarrow> nat \<Rightarrow> 'f AssignmentNode \<Rightarrow> 'f AST \<Rightarrow> 'f AST" where
  "add_assignment cur token_line a ast =
     (case cur of
        CurSection \<Rightarrow>
          AST (map_last (append_assignment a) (ast_sections ast)) (ast_conditionals ast) (ast_includes ast)
      | CurWhen \<Rightarrow>
          AST (ast_sections ast)
              (map_last (\<lambda>c. ConditionalNode (cn_condition c)
                                (map_last (append_assignment a) (cn_sections c)) (cn_line c))
                 (ast_conditionals ast))
              (ast_includes ast)
      | CurNone \<Rightarrow>
          (let secs = (case ast_sections ast of
                         [] \<Rightarrow> [SectionNode '''' [] token_line]
                       | s # r \<Rightarrow> if sn_name s \<noteq> '''' then SectionNode '''' [] token_line # s # r
                                  else s # r)
           in AST (append_assignment a (hd secs) # tl secs) (ast_conditionals ast) (ast_includes ast)))"

text \<open>The main loop of \<open>Parser.parse\<close>.\<close>

fun parse_loop ::
  "nat \<Rightarrow> 'f pyops \<Rightarrow> current_section \<Rightarrow> 'f AST \<Rightarrow> Token list \<Rightarrow> (error + 'f AST) option" where
  "parse_loop 0 ops cur ast ts = None"
| "parse_loop (Suc n) ops cur ast ts =
     (case ts of
        [] \<Rightarrow> Some (Inr ast)
      | t0 # r0 \<Rightarrow>
          if tok_type t0 = EOF then Some (Inr ast)
          else
            (case skip_indent ts of
               [] \<Rightarrow> Some (Inr ast)
             | token # rest \<Rightarrow>
                 if tok_type token = EOF then Some (Inr ast)
                 else if tok_type token = SECTION then
                   parse_loop n ops CurSection
                     (AST (ast_sections ast @ [SectionNode (tok_value token) [] (tok_line token)])
                          (ast_conditionals ast) (ast_includes ast))
                     rest
                 else if tok_type token = SECTION_WHEN then
                   (case parse_when_sections n ops [] (skip_indent rest) of
                      None \<Rightarrow> None
                    | Some (Inl e) \<Rightarrow> Some (Inl e)
                    | Some (Inr (secs, ts1)) \<Rightarrow>
                        parse_loop n ops (if secs = [] then CurNone else CurWhen)
                          (AST (ast_sections ast)
                               (ast_conditionals ast @
                                  [ConditionalNode (tok_value token) secs (tok_line token)])
                               (ast_includes ast))
                          ts1)
                 else if tok_type token = INCLUDE then
                   parse_loop n ops cur
                     (AST (ast_sections ast) (ast_conditionals ast)
                          (ast_includes ast @ [IncludeNode (tok_value token) (tok_line token)]))
                     rest
                 else if tok_type token = KEY then
                   (case parse_assignment n ops (token # rest) of
                      None \<Rightarrow> None
                    | Some (Inl e) \<Rightarrow> Some (Inl e)
                    | Some (Inr (a, ts1)) \<Rightarrow>
                        parse_loop n ops cur (add_assignment cur (tok_line token) a ast) ts1)
                 else parse_loop n ops cur ast rest))"

definition Parser_parse :: "nat \<Rightarrow> 'f pyops \<Rightarrow> Token list \<Rightarrow> (error + 'f AST) option" where
  "Parser_parse n ops tokens = parse_loop n ops CurNone (AST [] [] []) (Parser tokens)"

text \<open>\<open>parse(text)\<close>.\<close>

definition parse :: "nat \<Rightarrow> 'f pyops \<Rightarrow> string \<Rightarrow> (error + 'f AST) option" where
  "parse n ops text =
     (case tokenize n ops text of
        None \<Rightarrow> None
      | Some (Inl e) \<Rightarrow> Some (Inl e)
      | Some (Inr tokens) \<Rightarrow> Parser_parse n ops tokens)"

section \<open>Evaluator (evaluator.py)\<close>

text \<open>
  What the evaluator reads from outside the program: the Python built-ins, the process
  environment \<open>os.environ\<close>, and the file system.  Paths are strings; \<open>fs_isabs\<close> is
  \<open>os.path.isabs\<close>, \<open>fs_join base p\<close> is \<open>base / p\<close>, \<open>fs_resolve\<close> is \<open>Path.resolve\<close>,
  \<open>fs_parent\<close> is \<open>Path.parent\<close> and \<open>fs_read\<close> is opening and reading a file.
\<close>

datatype read_result = FileText string | FileNotFound | ReadFailed string

record 'f world =
  w_ops :: "'f pyops"
  w_environ :: environ
  fs_isabs :: "string \<Rightarrow> bool"
  fs_join :: "string \<Rightarrow> string \<Rightarrow> string"
  fs_resolve :: "string \<Rightarrow> string"
  fs_parent :: "string \<Rightarrow> string"
  fs_read :: "string \<Rightarrow> read_result"
  fs_cwd :: string

type_synonym provider = "(string \<Rightarrow> string option) option"

definition env_value :: "string option \<Rightarrow> 'f pyval" where
  "env_value v = (case v of None \<Rightarrow> VNone | Some s \<Rightarrow> VStr s)"

text \<open>The lookup of a secret: the provider if there is one, else \<open>SECRET_<name>\<close>.\<close>

definition lookup_secret :: "'f world \<Rightarrow> provider \<Rightarrow> string \<Rightarrow> string option" where
  "lookup_secret w sp name =
     (case sp of
        Some f \<Rightarrow> f name
      | None \<Rightarrow> w_environ w (''SECRET_'' @ name))"

text \<open>
  \<open>_evaluate_array\<close>.  The parser stores a string under \<open>$env\<close> and \<open>$secret\<close>; for any
  other value \<open>os.environ.get\<close> raises the built-in \<open>TypeError\<close>, and so does the model
  for a provider, whose argument is a string.
\<close>

fun evaluate_array :: "'f world \<Rightarrow> provider \<Rightarrow> 'f pyval list \<Rightarrow> error + 'f pyval list" where
  "evaluate_array w sp [] = Inr []"
| "evaluate_array w sp (item # arr) =
     (case
        (case item of
           VDict d \<Rightarrow>
             (case dict_get d ''$env'' of
                Some (VStr name) \<Rightarrow> Inr (env_value (w_environ w name))
              | Some _ \<Rightarrow> Inl (PyError BuiltinTypeError)
              | None \<Rightarrow>
                  (case dict_get d ''$secret'' of
                     Some (VStr name) \<Rightarrow> Inr (env_value (lookup_secret w sp name))
                   | Some other \<Rightarrow>
                       (case sp of
                          Some f \<Rightarrow> Inl (PyError BuiltinTypeError)
                        | None \<Rightarrow> Inr (env_value (w_environ w (''SECRET_'' @ py_str (w_ops w) other))))
                   | None \<Rightarrow> Inr item))
         | _ \<Rightarrow> Inr item)
      of
        Inl e \<Rightarrow> Inl e
      | Inr v \<Rightarrow> (case evaluate_array w sp arr of Inl e \<Rightarrow> Inl e | Inr vs \<Rightarrow> Inr (v # vs)))"

text \<open>\<open>str(e)\<close> for an exception caught by \<open>except Exception as e\<close>.\<close>

definition str_of_error :: "'f pyops \<Rightarrow> error \<Rightarrow> string" where
  "str_of_error ops e =
     (case e of
        LexerError m l c \<Rightarrow> format_message m l c
      | ParseError m l c \<Rightarrow> format_message m l c
      | TypeError m l c \<Rightarrow> format_message m l c
      | EvaluationError m l c \<Rightarrow> format_message m l c
      | IncludeError m l c \<Rightarrow> format_message m l c
      | SecretError m l c \<Rightarrow> format_message m l c
      | PyError x \<Rightarrow> str_of_exc ops x)"

text \<open>
  The last step of \<open>_evaluate_value\<close>: a truthy type hint on a value that is not
  \<open>None\<close> is resolved and applied, and whatever that raises becomes an
  \<open>EvaluationError\<close>.
\<close>

definition apply_hint :: "'f pyops \<Rightarrow> string option \<Rightarrow> nat \<Rightarrow> 'f pyval \<Rightarrow> error + 'f pyval" where
  "apply_hint ops type_hint line v =
     (if truthy_str type_hint \<and> v \<noteq> VNone then
        (case from_string (the type_hint) of
           Inl e \<Rightarrow> Inl (EvaluationError (str_of_error ops e) (Some line) None)
         | Inr ppc_type \<Rightarrow>
             (case validate_type ops v ppc_type (Some line) of
                Inl e \<Rightarrow> Inl (EvaluationError (str_of_error ops e) (Some line) None)
              | Inr r \<Rightarrow> Inr r))
      else Inr v)"

text \<open>\<open>_evaluate_value\<close>.\<close>

fun evaluate_value :: "'f world \<Rightarrow> provider \<Rightarrow> 'f ValueNode \<Rightarrow> error + 'f pyval" where
  "evaluate_value w sp (ValueNode val type_hint env_var secret dflt line) =
     (case
        (if truthy_str env_var then
           (case w_environ w (the env_var) of
              Some s \<Rightarrow> Inr (VStr s)
            | None \<Rightarrow> (case dflt of Some d \<Rightarrow> evaluate_value w sp d | None \<Rightarrow> Inr VNone))
         else if truthy_str secret then
           (case lookup_secret w sp (the secret) of
              Some s \<Rightarrow> Inr (VStr s)
            | None \<Rightarrow> (case dflt of Some d \<Rightarrow> evaluate_value w sp d | None \<Rightarrow> Inr VNone))
         else
           (case val of
              VList arr \<Rightarrow> (case evaluate_array w sp arr of Inl e \<Rightarrow> Inl e | Inr vs \<Rightarrow> Inr (VList vs))
            | _ \<Rightarrow> Inr val))
      of
        Inl e \<Rightarrow> Inl e
      | Inr v \<Rightarrow> apply_hint (w_ops w) type_hint line v)"

text \<open>\<open>str.split(".")\<close> on a non-empty string, and the \<open>parts\<close> of a section name.\<close>

fun split_dot :: "string \<Rightarrow> string \<Rightarrow> string list" where
  "split_dot acc [] = [acc]"
| "split_dot acc (c # cs) = (if c = CHR ''.'' then acc # split_dot [] cs else split_dot (acc @ [c]) cs)"

definition section_parts :: "string \<Rightarrow> string list" where
  "section_parts name = (if name = [] then [] else split_dot [] name)"

text \<open>The loop over the assignments of \<open>_process_section\<close>, on a dict.\<close>

fun process_assignments ::
  "'f world \<Rightarrow> provider \<Rightarrow> 'f AssignmentNode list \<Rightarrow> 'f pydict \<Rightarrow> error + 'f pydict" where
  "process_assignments w sp [] current = Inr current"
| "process_assignments w sp (a # as) current =
     (case evaluate_value w sp (an_value a) of
        Inl e \<Rightarrow> Inl e
      | Inr v \<Rightarrow> process_assignments w sp as (dict_set current (an_key a) v))"

text \<open>
  \<open>_process_section\<close> from \<open>current\<close> onwards.  The Python walks down \<open>current\<close> and
  mutates in place; the model rebuilds the dicts on the way back.  When \<open>current[part]\<close>
  is not a dict, the next \<open>part not in current\<close>, \<open>current[part] = {}\<close> or
  \<open>current[key] = value\<close> raises the built-in \<open>TypeError\<close>; with no further part and no
  assignment nothing is touched.
\<close>

fun descend ::
  "'f world \<Rightarrow> provider \<Rightarrow> string list \<Rightarrow> 'f AssignmentNode list \<Rightarrow> 'f pydict \<Rightarrow> error + 'f pydict" where
  "descend w sp [] as current = process_assignments w sp as current"
| "descend w sp (part # parts) as current =
     (case dict_get current part of
        None \<Rightarrow>
          (case descend w sp parts as [] of
             Inl e \<Rightarrow> Inl e
           | Inr sub \<Rightarrow> Inr (dict_set current part (VDict sub)))
      | Some (VDict child) \<Rightarrow>
          (case descend w sp parts as child of
             Inl e \<Rightarrow> Inl e
           | Inr sub \<Rightarrow> Inr (dict_set current part (VDict sub)))
      | Some other \<Rightarrow>
          (if parts = [] then
             (case as of
                [] \<Rightarrow> Inr current
              | a # _ \<Rightarrow>
                  (case evaluate_value w sp (an_value a) of
                     Inl e \<Rightarrow> Inl e
                   | Inr v \<Rightarrow> Inl (PyError BuiltinTypeError)))
           else Inl (PyError BuiltinTypeError)))"

definition process_section ::
  "'f world \<Rightarrow> provider \<Rightarrow> 'f SectionNode \<Rightarrow> 'f pydict \<Rightarrow> error + 'f pydict" where
  "process_section w sp section data =
     descend w sp (section_parts (sn_name section)) (sn_assignments section) data"

fun process_sections ::
  "'f world \<Rightarrow> provider \<Rightarrow> 'f SectionNode list \<Rightarrow> 'f pydict \<Rightarrow> error + 'f pydict" where
  "process_sections w sp [] data = Inr data"
| "process_sections w sp (s # ss) data =
     (case process_section w sp s data of
        Inl e \<Rightarrow> Inl e
      | Inr data' \<Rightarrow> process_sections w sp ss data')"

text \<open>
  \<open>_evaluate_condition\<close>.  \<open>match_comparison\<close> is \<open>re.match\<close> with the first pattern,
  returning the three groups: each of \<open>\w+\<close>, \<open>\s*\<close>, the optional quote and
  \<open>[^"']*\<close> takes the longest run it can, since no shorter run can make the rest of
  the pattern match.  \<open>match_truthy\<close> is \<open>re.match\<close> with the second pattern.
\<close>

definition is_quote :: "char \<Rightarrow> bool" where
  "is_quote c = (c = CHR 0x22 \<or> c = CHR 0x27)"

definition match_comparison :: "string \<Rightarrow> (string \<times> string \<times> string) option" where
  "match_comparison s =
     (if take 5 s = ''$env.'' then
        (let r = drop 5 s;
             var_name = takeWhile is_name_char r;
             r2 = dropWhile isspace (dropWhile is_name_char r);
             operator = take 2 r2
         in
         if var_name \<noteq> [] \<and> (operator = ''=='' \<or> operator = ''!='') then
           (let r3 = dropWhile isspace (drop 2 r2);
                r4 = (case r3 of [] \<Rightarrow> [] | c # cs \<Rightarrow> if is_quote c then cs else r3)
            in Some (var_name, operator, takeWhile (\<lambda>c. \<not> is_quote c) r4))
         else None)
      else None)"

definition match_truthy :: "string \<Rightarrow> string option" where
  "match_truthy s =
     (if take 5 s = ''$env.'' \<and> drop 5 s \<noteq> [] \<and> (\<forall>c \<in> set (drop 5 s). is_name_char c)
      then Some (drop 5 s) else None)"

definition evaluate_condition :: "environ \<Rightarrow> string \<Rightarrow> bool" where
  "evaluate_condition env condition =
     (let c = strip condition in
      case match_comparison c of
        Some (var_name, operator, expected) \<Rightarrow>
          (let actual = (case env var_name of None \<Rightarrow> [] | Some v \<Rightarrow> v) in
           if operator = ''=='' then actual = expected else actual \<noteq> expected)
      | None \<Rightarrow>
          (case match_truthy c of
             Some var_name \<Rightarrow> truthy_str (env var_name)
           | None \<Rightarrow> False))"

fun process_conditionals ::
  "'f world \<Rightarrow> provider \<Rightarrow> 'f ConditionalNode list \<Rightarrow> 'f pydict \<Rightarrow> error + 'f pydict" where
  "process_conditionals w sp [] data = Inr data"
| "process_conditionals w sp (c # cs) data =
     (if evaluate_condition (w_environ w) (cn_condition c) then
        (case process_sections w sp (cn_sections c) data of
           Inl e \<Rightarrow> Inl e
         | Inr data' \<Rightarrow> process_conditionals w sp cs data')
      else process_conditionals w sp cs data)"

text \<open>
  \<open>Evaluator.evaluate\<close> and \<open>_process_include\<close>.  \<open>base\<close> is \<open>self.base_path\<close> and
  \<open>included\<close> is \<open>self._included_files\<close>, one set shared by every evaluator of a load:
  the functions return it as it is after the call.  \<open>include_loop\<close> is the first loop
  of \<open>evaluate\<close>.  Reading an included file goes through the lexer, so the first
  argument is fuel.
\<close>

fun evaluate ::
    "nat \<Rightarrow> 'f world \<Rightarrow> provider \<Rightarrow> string \<Rightarrow> string set \<Rightarrow> 'f AST
       \<Rightarrow> (error + 'f pydict \<times> string set) option"
  and include_loop ::
    "nat \<Rightarrow> 'f world \<Rightarrow> provider \<Rightarrow> string \<Rightarrow> string set \<Rightarrow> 'f pydict \<Rightarrow> IncludeNode list
       \<Rightarrow> (error + 'f pydict \<times> string set) option"
  and process_include ::
    "nat \<Rightarrow> 'f world \<Rightarrow> provider \<Rightarrow> string \<Rightarrow> string set \<Rightarrow> string \<Rightarrow> nat
       \<Rightarrow> (error + 'f pydict \<times> string set) option"
where
  "evaluate n w sp base included ast =
     (case include_loop n w sp base included [] (ast_includes ast) of
        None \<Rightarrow> None
      | Some (Inl e) \<Rightarrow> Some (Inl e)
      | Some (Inr (data, included')) \<Rightarrow>
          (case process_sections w sp (ast_sections ast) data of
             Inl e \<Rightarrow> Some (Inl e)
           | Inr data1 \<Rightarrow>
               (case process_conditionals w sp (ast_conditionals ast) data1 of
                  Inl e \<Rightarrow> Some (Inl e)
                | Inr data2 \<Rightarrow> Some (Inr (data2, included')))))"
| "include_loop n w sp base included data [] = Some (Inr (data, included))"
| "include_loop n w sp base included data (inc # incs) =
     (case process_include n w sp base included (in_path inc) (in_line inc) of
        None \<Rightarrow> None
      | Some (Inl e) \<Rightarrow> Some (Inl e)
      | Some (Inr (included_data, included')) \<Rightarrow>
          include_loop n w sp base included' (deep_merge_tree data included_data) incs)"
| "process_include 0 w sp base included path line = None"
| "process_include (Suc n) w sp base included path line =
     (let full_path = (if \<not> fs_isabs w path then fs_join w base path else path);
          resolved = fs_resolve w full_path
      in
      if resolved \<in> included then
        Some (Inl (IncludeError (''Circular include detected: '' @ path) (Some line) None))
      else
        (case fs_read w full_path of
           FileNotFound \<Rightarrow>
             Some (Inl (IncludeError (''Include file not found: '' @ path) (Some line) None))
         | ReadFailed m \<Rightarrow>
             Some (Inl (IncludeError (''Error reading include file: '' @ m) (Some line) None))
         | FileText text \<Rightarrow>
             (case parse n (w_ops w) text of
                None \<Rightarrow> None
              | Some (Inl e) \<Rightarrow> Some (Inl e)
              | Some (Inr included_ast) \<Rightarrow>
                  evaluate n w sp (fs_parent w full_path) (insert resolved included) included_ast)))"

section \<open>Loading (__init__.py)\<close>

text \<open>
  \<open>loads\<close>: the provider is \<open>secret_provider\<close> if given, else the lookup in \<open>secrets\<close> if
  that dict is not empty; the base path is \<open>base_path\<close> if given, else the working
  directory; the set of included files starts empty.
\<close>

definition loads ::
  "nat \<Rightarrow> 'f world \<Rightarrow> string \<Rightarrow> string option \<Rightarrow> provider \<Rightarrow> (string \<times> string) list
     \<Rightarrow> (error + 'f pydict) option" where
  "loads n w text base_path secret_provider secrets =
     (let sp = (case secret_provider of
                  Some f \<Rightarrow> Some f
                | None \<Rightarrow> if secrets \<noteq> [] then Some (map_of secrets) else None)
      in
      case parse n (w_ops w) text of
        None \<Rightarrow> None
      | Some (Inl e) \<Rightarrow> Some (Inl e)
      | Some (Inr ast) \<Rightarrow>
          (case evaluate n w sp (case base_path of Some b \<Rightarrow> b | None \<Rightarrow> fs_cwd w) {} ast of
             None \<Rightarrow> None
           | Some (Inl e) \<Rightarrow> Some (Inl e)
           | Some (Inr (data, included)) \<Rightarrow> Some (Inr data)))"

text \<open>
  \<open>load\<close>, for the provider \<open>sp\<close> that it builds from its keyword arguments.  A file that
  cannot be opened raises the built-in \<open>OSError\<close>.
\<close>

definition load :: "nat \<Rightarrow> 'f world \<Rightarrow> string \<Rightarrow> provider \<Rightarrow> (error + 'f pydict) option" where
  "load n w path sp =
     (case fs_read w path of
        FileText text \<Rightarrow>
          (case parse n (w_ops w) text of
             None \<Rightarrow> None
           | Some (Inl e) \<Rightarrow> Some (Inl e)
           | Some (Inr ast) \<Rightarrow>
               (case evaluate n w sp (fs_parent w path) {} ast of
                  None \<Rightarrow> None
                | Some (Inl e) \<Rightarrow> Some (Inl e)
                | Some (Inr (data, included)) \<Rightarrow> Some (Inr data)))
      | _ \<Rightarrow> Some (Inl (PyError OSError)))"

section \<open>Concrete worlds for examples\<close>

text \<open>
  A world without floating point numbers, with the environment and the files given as
  association lists.  Paths are joined with \<open>/\<close>, every path is its own canonical
  form, and the parent of a path is the path without its last component.
\<close>

definition example_ops :: "unit pyops" where
  "example_ops =
     \<lparr>float_of_string = (\<lambda>s. None), float_of_int = (\<lambda>i. Inr ()), int_of_float = (\<lambda>x. Inr 0),
      str_of_float = (\<lambda>x. ''0.0''), str_of_compound = (\<lambda>v. ''[...]''),
      str_of_exc = (\<lambda>e. ''built-in exception'')\<rparr>"

definition example_world :: "(string \<times> string) list \<Rightarrow> (string \<times> string) list \<Rightarrow> unit world" where
  "example_world env files =
     \<lparr>w_ops = example_ops,
      w_environ = map_of env,
      fs_isabs = (\<lambda>p. take 1 p = ''/''),
      fs_join = (\<lambda>b p. b @ ''/'' @ p),
      fs_resolve = (\<lambda>p. p),
      fs_parent = (\<lambda>p. rev (drop 1 (dropWhile (\<lambda>c. c \<noteq> CHR ''/'') (rev p)))),
      fs_read = (\<lambda>p. case map_of files p of None \<Rightarrow> FileNotFound | Some t \<Rightarrow> FileText t),
      fs_cwd = ''/cwd''\<rparr>"

text \<open>The value of a tree at a path of keys.\<close>

fun get_path :: "'f pydict \<Rightarrow> string list \<Rightarrow> 'f pyval option" where
  "get_path d [] = Some (VDict d)"
| "get_path d [k] = dict_get d k"
| "get_path d (k # ks) = (case dict_get d k of Some (VDict c) \<Rightarrow> get_path c ks | _ \<Rightarrow> None)"

text \<open>Whether an error is of the class \<open>TypeError\<close> of \<open>exceptions.py\<close>.\<close>

definition is_TypeError :: "error \<Rightarrow> bool" where
  "is_TypeError e = (case e of TypeError m l c \<Rightarrow> True | _ \<Rightarrow> False)"

section \<open>Properties\<close>

subsection \<open>Dictionaries\<close>
















subsection \<open>Merging a dict object into itself\<close>

declare deep_merge_loop.simps [simp del]




subsection \<open>The children of a dict object\<close>











subsection \<open>The invariant of the loop\<close>








subsection \<open>The merge of dict objects that share nothing\<close>





subsection \<open>The merge of trees\<close>




subsection \<open>Config.merge\<close>



text \<open>
  The claim as it is written fails on dict objects that are shared.  In \<open>nested_store\<close>
  the config at address 0 is \<open>{'sub': {'sub': {'x': 1}}}\<close>; merging the dict under its
  key \<open>sub\<close> (address 1) into it raises \<open>RuntimeError\<close>: the inner call adds the key
  \<open>x\<close> to the dict that the outer loop is iterating over.
\<close>

theorem C9_merge_raises:
  "merge 5 nested_store 0 1 = Inl RuntimeError"
  by (simp add: merge_def deep_merge_loop.simps nested_store_def dict_get_def numeral_nat)

text \<open>
  Sharing inside the base also shows: in \<open>shared_store\<close> the keys \<open>dev\<close> and \<open>prod\<close> of
  the config at address 0 hold the same dict, and merging \<open>{'prod': {'timeout': 60}}\<close>
  (address 2) changes what is read under \<open>dev\<close> as well.
\<close>

lemma merge_shared_store:
  "(case merge 5 shared_store 0 2 of Inl e \<Rightarrow> None | Inr h \<Rightarrow> h 1) = Some [(''timeout'', CInt 60)]"
  by (simp add: merge_def deep_merge_loop.simps shared_store_def dict_get_def numeral_nat)

subsection \<open>Secret providers\<close>

text \<open>
  Claim C10.  When \<open>SECRET_<key>\<close> is set to the empty string, \<open>EnvSecretProvider.get\<close>
  skips it and answers from \<open>PEPECONFIG_SECRET_<key>\<close>: the value of that variable when
  it is set and non-empty, and null when it is unset or empty.  An empty string is never
  returned.
\<close>

theorem C10_env_secret_truthiness:
  "env (''SECRET_'' @ key) = Some [] \<Longrightarrow>
   EnvSecretProvider_get ''SECRET_'' env key =
     (case env (''PEPECONFIG_SECRET_'' @ key) of
        None \<Rightarrow> None
      | Some w \<Rightarrow> if w = [] then None else Some w)
   \<and> EnvSecretProvider_get ''SECRET_'' env key \<noteq> Some []"
  by (auto simp: EnvSecretProvider_get_def truthy_str_def Let_def split: option.splits)

theorem C10_env_secret_truthiness_witness:
  "[''SECRET_DB'' \<mapsto> '''', ''PEPECONFIG_SECRET_DB'' \<mapsto> ''pw''] (''SECRET_'' @ ''DB'') = Some []
   \<and> EnvSecretProvider_get ''SECRET_''
        [''SECRET_DB'' \<mapsto> '''', ''PEPECONFIG_SECRET_DB'' \<mapsto> ''pw''] ''DB'' = Some ''pw''"
  using C10_env_secret_truthiness[of "[''SECRET_DB'' \<mapsto> '''', ''PEPECONFIG_SECRET_DB'' \<mapsto> ''pw'']" "''DB''"]
  by simp

end
